theory Spec2Isabelle
  imports Main "HOL-Library.Sublist"
begin

section \<open>The altair-plot directive (doc/sphinxext/altair\_ext/altairplot.py)\<close>

text \<open>
  The module has three parts: \<^verbatim>\<open>exec_then_eval\<close>, which runs a block of Python and
  returns the value of its last statement; the directive's \<^verbatim>\<open>run\<close> method, which
  builds the node sequence; and the visitors, which render a plot node for one output
  format. Python exceptions are values of \<open>py_error\<close>; a function that can raise
  returns \<open>py_error + 'a\<close>, with \<open>Inl\<close> for the exception.
\<close>

subsection \<open>Exceptions\<close>

datatype py_error =
    SyntaxError
  | IndexError
  | AttributeError string
  | NameError string
  | UnboundLocalError string
  | TypeError
  | ValueError
  | OSError
  | RuntimeError string

subsection \<open>Statement nodes of the \<^verbatim>\<open>ast\<close> module\<close>

text \<open>
  \<^verbatim>\<open>exec_then_eval\<close> reads one field of one statement node: \<^verbatim>\<open>value\<close>. The statement
  classes are listed with that field where the class has it (an optional one as an
  \<open>option\<close>) and with their nested bodies; \<open>'e\<close> is the type of expression nodes.
\<close>

datatype 'e stmt =
    Expr 'e
  | Assign "'e list" 'e
  | AugAssign 'e string 'e
  | AnnAssign 'e 'e "'e option"
  | Return "'e option"
  | Delete "'e list"
  | Pass
  | Break
  | Continue
  | Import "string list"
  | Global "string list"
  | Raise "'e option"
  | Assert 'e
  | If 'e "'e stmt list" "'e stmt list"
  | While 'e "'e stmt list" "'e stmt list"
  | For 'e 'e "'e stmt list" "'e stmt list"
  | With 'e "'e stmt list"
  | FunctionDef string "'e stmt list"
  | ClassDef string "'e stmt list"

text \<open>
  \<^verbatim>\<open>node.value\<close>: the field of the five classes that declare it, AttributeError on
  every other class. \<open>None\<close> is Python's None (a bare \<^verbatim>\<open>return\<close>, an annotation
  without a value).
\<close>

fun stmt_value :: "'e stmt \<Rightarrow> py_error + 'e option" where
  "stmt_value (Expr v) = Inr (Some v)"
| "stmt_value (Assign ts v) = Inr (Some v)"
| "stmt_value (AugAssign t opr v) = Inr (Some v)"
| "stmt_value (AnnAssign t a v) = Inr v"
| "stmt_value (Return v) = Inr v"
| "stmt_value s = Inl (AttributeError ''value'')"

text \<open>\<^verbatim>\<open>list.pop()\<close>: removes and returns the last item; IndexError on the empty list.\<close>

definition list_pop :: "'a list \<Rightarrow> py_error + ('a \<times> 'a list)" where
  "list_pop xs = (if xs = [] then Inl IndexError else Inr (last xs, butlast xs))"

subsection \<open>Specifications\<close>

text \<open>
  What \<^verbatim>\<open>to_dict\<close> returns and \<^verbatim>\<open>json.dumps\<close> takes: nested dicts and lists of
  primitive values. A dict is an association list in insertion order. Floating-point
  numbers are left out.
\<close>

datatype json =
    JNull
  | JBool bool
  | JInt int
  | JStr string
  | JList "json list"
  | JDict "(string \<times> json) list"

subsection \<open>The Python runtime and the libraries the module calls\<close>

text \<open>
  The interpreter and the libraries are not part of the module; they are parameters of
  the model. \<open>'v\<close> is the type of Python values, a namespace is a dict from names to
  values. Each call returns a value or raises; a block that never returns is outside
  the model.
  \<^item> \<open>ast_parse code\<close> is \<^verbatim>\<open>ast.parse(code, mode='exec').body\<close>;
  \<^item> \<open>py_exec body g l\<close> is \<^verbatim>\<open>exec(compile(Module(body), '<string>', mode='exec'), g, l)\<close>
    and returns the two namespaces as the block leaves them;
  \<^item> \<open>py_eval v g l\<close> is \<^verbatim>\<open>eval(compile(ast.Expression(v), '<string>', mode='eval'), g, l)\<close>;
  \<^item> \<open>to_dict chart\<close> is \<^verbatim>\<open>chart.to_dict()\<close>;
  \<^item> \<open>json_dumps\<close> is \<^verbatim>\<open>json.dumps(x)\<close>, \<open>json_dumps_indent\<close> is
    \<^verbatim>\<open>json.dumps(x, indent=2)\<close>, \<open>json_loads\<close> is \<^verbatim>\<open>json.loads\<close>;
  \<^item> \<open>os_relpath\<close> is \<^verbatim>\<open>os.path.relpath\<close>;
  \<^item> \<open>gettext\<close> is \<^verbatim>\<open>sphinx.locale._\<close>, the lookup of a message in the active
    catalogue.
\<close>

type_synonym 'v namespace = "string \<rightharpoonup> 'v"

record ('e, 'v) runtime =
  ast_parse :: "string \<Rightarrow> py_error + 'e stmt list"
  py_exec :: "'e stmt list \<Rightarrow> 'v namespace \<Rightarrow> 'v namespace
                \<Rightarrow> py_error + ('v namespace \<times> 'v namespace)"
  py_eval :: "'e option \<Rightarrow> 'v namespace \<Rightarrow> 'v namespace \<Rightarrow> py_error + 'v"
  to_dict :: "'v \<Rightarrow> py_error + json"
  json_dumps :: "json \<Rightarrow> string"
  json_dumps_indent :: "json \<Rightarrow> string"
  json_loads :: "string \<Rightarrow> py_error + json"
  os_relpath :: "string \<Rightarrow> string \<Rightarrow> py_error + string"
  gettext :: "string \<Rightarrow> string"

subsection \<open>\<^verbatim>\<open>exec_then_eval\<close>\<close>

text \<open>
  \<^verbatim>\<open>
  def exec_then_eval(code):
      block = ast.parse(code, mode='exec')
      last = ast.Expression(block.body.pop().value)
      globals = {}
      locals = {}
      exec(compile(block, '<string>', mode='exec'), globals, locals)
      return eval(compile(last, '<string>', mode='eval'), globals, locals)
  \<close>
\<close>

definition exec_then_eval :: "('e, 'v) runtime \<Rightarrow> string \<Rightarrow> py_error + 'v" where
  "exec_then_eval rt code =
     (case ast_parse rt code of
        Inl e \<Rightarrow> Inl e
      | Inr body \<Rightarrow>
          (case list_pop body of
             Inl e \<Rightarrow> Inl e
           | Inr (final, block) \<Rightarrow>
               (case stmt_value final of
                  Inl e \<Rightarrow> Inl e
                | Inr v \<Rightarrow>
                    (case py_exec rt block Map.empty Map.empty of
                       Inl e \<Rightarrow> Inl e
                     | Inr (globals, locals) \<Rightarrow> py_eval rt v globals locals))))"

subsection \<open>Strings and paths\<close>

text \<open>\<^verbatim>\<open>sep.join(xs)\<close>.\<close>

fun str_join :: "string \<Rightarrow> string list \<Rightarrow> string" where
  "str_join sep [] = []"
| "str_join sep [x] = x"
| "str_join sep (x # y # ys) = x @ sep @ str_join sep (y # ys)"

text \<open>\<^verbatim>\<open>s.replace(old, new)\<close> for one-character \<^verbatim>\<open>old\<close> and \<^verbatim>\<open>new\<close>.\<close>

definition str_replace :: "char \<Rightarrow> char \<Rightarrow> string \<Rightarrow> string" where
  "str_replace old new s = map (\<lambda>c. if c = old then new else c) s"

text \<open>\<^verbatim>\<open>str(n)\<close> for a non-negative integer: its decimal digits.\<close>

definition digit_char :: "nat \<Rightarrow> char" where
  "digit_char d = ''0123456789'' ! d"

function str_nat :: "nat \<Rightarrow> string" where
  "str_nat n = (if n < 10 then [digit_char n] else str_nat (n div 10) @ [digit_char (n mod 10)])"
  by pat_completeness auto
termination
  by (relation "measure id") auto

declare str_nat.simps [simp del]

text \<open>
  The functions of \<^verbatim>\<open>os.path\<close> as \<^verbatim>\<open>posixpath\<close> defines them.
  \<^verbatim>\<open>
  def basename(p):
      i = p.rfind('/') + 1
      return p[i:]

  def dirname(p):
      i = p.rfind('/') + 1
      head = p[:i]
      if head and head != '/'*len(head):
          head = head.rstrip('/')
      return head

  def join(a, b):
      if b.startswith('/'):
          path = b
      elif not a or a.endswith('/'):
          path = a + b
      else:
          path = a + '/' + b
      return path
  \<close>
\<close>

definition basename :: "string \<Rightarrow> string" where
  "basename p = rev (takeWhile (\<lambda>c. c \<noteq> CHR ''/'') (rev p))"

definition dirname :: "string \<Rightarrow> string" where
  "dirname p =
     (let head = rev (dropWhile (\<lambda>c. c \<noteq> CHR ''/'') (rev p))
      in if head \<noteq> [] \<and> (\<exists>c \<in> set head. c \<noteq> CHR ''/'')
         then rev (dropWhile (\<lambda>c. c = CHR ''/'') (rev head))
         else head)"

definition startswith_sep :: "string \<Rightarrow> bool" where
  "startswith_sep b = (case b of [] \<Rightarrow> False | c # cs \<Rightarrow> c = CHR ''/'')"

definition path_join :: "string \<Rightarrow> string \<Rightarrow> string" where
  "path_join a b =
     (if startswith_sep b then b
      else if a = [] \<or> last a = CHR ''/'' then a @ b
      else a @ ''/'' @ b)"

subsection \<open>Document nodes\<close>

text \<open>
  \<^verbatim>\<open>nodes.literal_block(rawsource, text)\<close> with its \<^verbatim>\<open>language\<close> attribute;
  \<^verbatim>\<open>altair_plot\<close> with the attributes \<^verbatim>\<open>run\<close> sets (\<open>alt\<close> is set only when the
  option is given); \<^verbatim>\<open>nodes.target('', '', ids=...)\<close>.
\<close>

record literal_block =
  rawsource :: string
  astext :: string
  language :: string

record altair_plot =
  target_id :: string
  div_id :: string
  source :: literal_block
  relpath :: string
  rst_source :: string
  rst_lineno :: int
  spec :: json
  alt :: "string option"

datatype node =
    Target "string list"
  | Literal_block literal_block
  | Altair_plot altair_plot

subsection \<open>The build environment\<close>

text \<open>
  Modelled from the spec: \<^verbatim>\<open>env.new_serialno\<close>, the host framework's allocator, which
  is not part of the repository. The spec describes a per-build serial number that
  increases monotonically, one allocated per invocation from the build state, never
  reset during a build. The model keeps one count for each category name, returns the
  current count and stores its successor.
\<close>

record build_env =
  srcdir :: string
  serialnos :: "string \<Rightarrow> nat"

definition new_serialno :: "build_env \<Rightarrow> string \<Rightarrow> nat \<times> build_env" where
  "new_serialno env category =
     (serialnos env category,
      env\<lparr>serialnos := (serialnos env)(category := Suc (serialnos env category))\<rparr>)"

subsection \<open>The directive\<close>

text \<open>
  One invocation: \<^verbatim>\<open>self.options\<close> (the converted value of a flag is None and is never
  read; it is held as the empty string), \<^verbatim>\<open>self.content\<close>,
  \<^verbatim>\<open>self.state_machine.document['source']\<close> and \<^verbatim>\<open>self.lineno\<close>.
\<close>

record directive =
  options :: "string \<rightharpoonup> string"
  content :: "string list"
  document_source :: string
  lineno :: int

text \<open>
  \<^verbatim>\<open>AltairPlotDirective.run\<close>. A local variable that is assigned on one branch only is
  an \<open>option\<close>, and reading it while unbound raises UnboundLocalError. The name
  \<^verbatim>\<open>specjson\<close> is bound nowhere, so reading it raises NameError. The environment is
  returned with the result: a serial number allocated before an exception stays
  allocated. A local variable that has the name of a node attribute is primed.
\<close>

definition run ::
  "('e, 'v) runtime \<Rightarrow> directive \<Rightarrow> build_env \<Rightarrow> (py_error + node list) \<times> build_env" where
  "run rt self env =
     (let show_code = (''hide-code'' \<notin> dom (options self));
          show_json = (''show-json'' \<in> dom (options self));
          code_below = (''code-below'' \<in> dom (options self));
          code = str_join ''\<newline>'' (content self)
      in case exec_then_eval rt code of
           Inl e \<Rightarrow> (Inl e, env)
         | Inr chart \<Rightarrow>
        (case to_dict rt chart of
           Inl e \<Rightarrow> (Inl e, env)
         | Inr spec' \<Rightarrow>
        (let source_literal =
               (if show_code
                then Some \<lparr>rawsource = code, astext = code, language = ''python''\<rparr>
                else None)
         in case (if show_json
                  then (let spec_json = json_dumps_indent rt spec'
                        in Inl (NameError ''specjson''))
                  else Inr (None :: literal_block option)) of
              Inl e \<Rightarrow> (Inl e, env)
            | Inr json_literal \<Rightarrow>
        (let rst_source' = document_source self;
             rst_dir = dirname rst_source';
             rst_filename = basename rst_source';
             rst_base = str_replace CHR ''.'' CHR ''-'' rst_filename;
             (serialno, env1) = new_serialno env ''altair-plot'';
             target_id' = rst_base @ ''-altair-source-'' @ str_nat serialno;
             div_id' = rst_base @ ''-altair-plot-'' @ str_nat serialno;
             target_node = Target [target_id']
         in case source_literal of
              None \<Rightarrow> (Inl (UnboundLocalError ''source_literal''), env1)
            | Some src \<Rightarrow>
        (case os_relpath rt rst_dir (srcdir env1) of
           Inl e \<Rightarrow> (Inl e, env1)
         | Inr rel \<Rightarrow>
        (let plot_node =
               Altair_plot
                 \<lparr>target_id = target_id', div_id = div_id', source = src, relpath = rel,
                  rst_source = rst_source', rst_lineno = lineno self, spec = spec',
                  alt = options self ''alt''\<rparr>
         in case (if show_json
                  then (case json_literal of
                          None \<Rightarrow> Inl (UnboundLocalError ''json_literal'')
                        | Some j \<Rightarrow> Inr [Literal_block j])
                  else Inr []) of
              Inl e \<Rightarrow> (Inl e, env1)
            | Inr json_nodes \<Rightarrow>
                (Inr ([target_node]
                      @ (if code_below then [plot_node] else [])
                      @ (if show_code then [Literal_block src] else [])
                      @ json_nodes
                      @ (if \<not> code_below then [plot_node] else [])),
                 env1)))))))"

subsection \<open>The visitors\<close>

text \<open>
  A visitor appends to \<^verbatim>\<open>self.body\<close> and leaves by raising: \<^verbatim>\<open>nodes.SkipNode\<close> when it
  is done, or the exception of a call that failed.
\<close>

record translator =
  body :: "string list"
  builder_outdir :: string

datatype visit_exit = SkipNode | Raised py_error

text \<open>
  The file system the HTML visitor writes to: the directories, the files with their
  contents, and the paths at which the operating system refuses to create or write
  (the I/O failures of the visitor).
  \<^item> \<^verbatim>\<open>os.path.exists(p)\<close> holds for a directory and for a file;
  \<^item> \<^verbatim>\<open>os.makedirs(p)\<close> creates the directory \<open>p\<close>, and raises OSError when \<open>p\<close> exists
    or is refused (the intermediate directories it creates are not recorded);
  \<^item> \<^verbatim>\<open>with open(p, 'w') as f: f.write(s)\<close> replaces the content of \<open>p\<close>, and raises
    OSError when \<open>p\<close> is a directory or is refused.
\<close>

record filesystem =
  dirs :: "string set"
  files :: "string \<rightharpoonup> string"
  refused :: "string set"

definition os_path_exists :: "filesystem \<Rightarrow> string \<Rightarrow> bool" where
  "os_path_exists fs p = (p \<in> dirs fs \<or> p \<in> dom (files fs))"

definition os_makedirs :: "filesystem \<Rightarrow> string \<Rightarrow> py_error + filesystem" where
  "os_makedirs fs p =
     (if p \<in> refused fs \<or> os_path_exists fs p then Inl OSError
      else Inr (fs\<lparr>dirs := insert p (dirs fs)\<rparr>))"

definition write_file :: "filesystem \<Rightarrow> string \<Rightarrow> string \<Rightarrow> py_error + filesystem" where
  "write_file fs p s =
     (if p \<in> refused fs \<or> p \<in> dirs fs then Inl OSError
      else Inr (fs\<lparr>files := (files fs)(p \<mapsto> s)\<rparr>))"

text \<open>
  \<^verbatim>\<open>VGL_TEMPLATE.render(div_id=..., filename=...)\<close>: the template text with its two
  variables filled in (the template engine drops the newline that ends the text).
\<close>

definition VGL_TEMPLATE_render :: "string \<Rightarrow> string \<Rightarrow> string" where
  \<open>VGL_TEMPLATE_render div_id' filename =
     ''\<newline><div id="'' @ div_id' @ ''">\<newline>''
     @ ''<script src="https://d3js.org/d3.v3.min.js"></script>\<newline>''
     @ ''<script src="https://vega.github.io/vega/vega.js"></script>\<newline>''
     @ ''<script src="https://vega.github.io/vega-lite/vega-lite.js"></script>\<newline>''
     @ ''<script src="https://vega.github.io/vega-editor/vendor/vega-embed.js" charset="utf-8"></script>\<newline>''
     @ ''<script>\<newline>''
     @ ''  vg.embed("#'' @ div_id' @ ''", "'' @ filename
     @ ''", function(error, result) {});\<newline>''
     @ ''</script>\<newline>''
     @ ''</div>''\<close>

text \<open>
  \<^verbatim>\<open>
  def html_visit_altair_plot(self, node):
      embed_spec = json.dumps({'mode': 'vega-lite', 'spec': node['spec']})
      dest_dir = os.path.join(self.builder.outdir, node['relpath'])
      if not os.path.exists(dest_dir):
          os.makedirs(dest_dir)
      filename = "{0}.vl.json".format(node['div_id'])
      dest_path = os.path.join(dest_dir, filename)
      with open(dest_path, 'w') as f:
          f.write(embed_spec)
      html = VGL_TEMPLATE.render(div_id=node['div_id'], filename=filename)
      self.body.append(html)
      raise nodes.SkipNode
  \<close>
\<close>

definition embed_payload :: "altair_plot \<Rightarrow> json" where
  "embed_payload node = JDict [(''mode'', JStr ''vega-lite''), (''spec'', spec node)]"

definition html_visit_altair_plot ::
  "('e, 'v) runtime \<Rightarrow> translator \<Rightarrow> filesystem \<Rightarrow> altair_plot
     \<Rightarrow> visit_exit \<times> translator \<times> filesystem" where
  "html_visit_altair_plot rt self fs node =
     (let embed_spec = json_dumps rt (embed_payload node);
          dest_dir = path_join (builder_outdir self) (relpath node)
      in case (if \<not> os_path_exists fs dest_dir then os_makedirs fs dest_dir else Inr fs) of
           Inl e \<Rightarrow> (Raised e, self, fs)
         | Inr fs1 \<Rightarrow>
             (let filename = div_id node @ ''.vl.json'';
                  dest_path = path_join dest_dir filename
              in case write_file fs1 dest_path embed_spec of
                   Inl e \<Rightarrow> (Raised e, self, fs1)
                 | Inr fs2 \<Rightarrow>
                     (let html = VGL_TEMPLATE_render (div_id node) filename
                      in (SkipNode, self\<lparr>body := body self @ [html]\<rparr>, fs2))))"

text \<open>
  \<^verbatim>\<open>fmt % arg\<close> for a string \<^verbatim>\<open>arg\<close>: \<^verbatim>\<open>%s\<close> takes the argument, \<^verbatim>\<open>%%\<close> is a percent
  sign; TypeError when the format takes no argument or asks for a second one. The
  other conversions are not modelled and are reported as ValueError, which is what
  Python raises for a conversion character it does not know and for a format that
  ends in \<^verbatim>\<open>%\<close>. \<open>used\<close> tells whether the argument has been taken.
\<close>

fun percent_format :: "string \<Rightarrow> string \<Rightarrow> bool \<Rightarrow> py_error + string" where
  "percent_format [] arg used = (if used then Inr [] else Inl TypeError)"
| "percent_format (c # cs) arg used =
     (if c \<noteq> CHR ''%'' then map_sum id ((#) c) (percent_format cs arg used)
      else (case cs of
              [] \<Rightarrow> Inl ValueError
            | d # ds \<Rightarrow>
                if d = CHR ''%'' then map_sum id ((#) CHR ''%'') (percent_format ds arg used)
                else if d = CHR ''s''
                then (if used then Inl TypeError
                      else map_sum id ((@) arg) (percent_format ds arg True))
                else Inl ValueError))"




subsection \<open>A build: the invocations of one run, in document order\<close>

text \<open>
  The host framework processes the directives one at a time and hands each the
  environment the one before it left. \<open>run_all\<close> gives the results in order;
  \<open>env_at rt ds env k\<close> is the environment in which invocation \<open>k\<close> runs, so the serial
  number that invocation allocates is \<open>serialnos (env_at rt ds env k) ''altair-plot''\<close>.
  An invocation that raised is kept in the build: whether the build goes on after
  it is the host framework's choice.
\<close>

fun run_all ::
  "('e, 'v) runtime \<Rightarrow> directive list \<Rightarrow> build_env
     \<Rightarrow> (py_error + node list) list \<times> build_env" where
  "run_all rt [] env = ([], env)"
| "run_all rt (d # ds) env =
     (let (r, env1) = run rt d env;
          (rs, env2) = run_all rt ds env1
      in (r # rs, env2))"

fun env_at :: "('e, 'v) runtime \<Rightarrow> directive list \<Rightarrow> build_env \<Rightarrow> nat \<Rightarrow> build_env" where
  "env_at rt ds env 0 = env"
| "env_at rt [] env (Suc k) = env"
| "env_at rt (d # ds) env (Suc k) = env_at rt ds (snd (run rt d env)) k"

text \<open>The identifiers a node carries.\<close>

fun ids_of_node :: "node \<Rightarrow> string set" where
  "ids_of_node (Target ids) = set ids"
| "ids_of_node (Literal_block b) = {}"
| "ids_of_node (Altair_plot p) = {target_id p, div_id p}"

definition node_ids :: "node list \<Rightarrow> string set" where
  "node_ids ns = (\<Union>n \<in> set ns. ids_of_node n)"

subsection \<open>A sample runtime\<close>

text \<open>
  A small instance of the runtime, for evaluating the model on concrete blocks. Its
  expressions are a name, an integer literal and \<^verbatim>\<open>altair.Chart().mark_bar()\<close>, which
  needs the name \<^verbatim>\<open>altair\<close> bound and gives a chart whose specification is
  \<open>bar_spec\<close>; its statements are \<^verbatim>\<open>import\<close>, the assignment to one name, the
  expression statement and \<^verbatim>\<open>pass\<close>. A top-level statement binds in the local
  namespace; a name is looked up in the local namespace, then in the global one.
\<close>

datatype sample_expr = Name string | Num int | BarChart

datatype sample_value = IntVal int | ModuleVal string | ChartVal json

definition bar_spec :: json where
  "bar_spec = JDict [(''mark'', JStr ''bar'')]"

definition sample_lookup ::
  "string \<Rightarrow> sample_value namespace \<Rightarrow> sample_value namespace \<Rightarrow> py_error + sample_value" where
  "sample_lookup x g l =
     (case l x of
        Some v \<Rightarrow> Inr v
      | None \<Rightarrow> (case g x of Some v \<Rightarrow> Inr v | None \<Rightarrow> Inl (NameError x)))"

fun sample_eval ::
  "sample_expr option \<Rightarrow> sample_value namespace \<Rightarrow> sample_value namespace
     \<Rightarrow> py_error + sample_value" where
  "sample_eval None g l = Inl ValueError"
| "sample_eval (Some (Name x)) g l = sample_lookup x g l"
| "sample_eval (Some (Num n)) g l = Inr (IntVal n)"
| "sample_eval (Some BarChart) g l =
     (case sample_lookup ''altair'' g l of
        Inl err \<Rightarrow> Inl err
      | Inr m \<Rightarrow>
          if m = ModuleVal ''altair'' then Inr (ChartVal bar_spec)
          else Inl (AttributeError ''Chart''))"

fun bind_modules :: "string list \<Rightarrow> sample_value namespace \<Rightarrow> sample_value namespace" where
  "bind_modules [] l = l"
| "bind_modules (m # ms) l = bind_modules ms (l(m \<mapsto> ModuleVal m))"

fun sample_exec ::
  "sample_expr stmt list \<Rightarrow> sample_value namespace \<Rightarrow> sample_value namespace
     \<Rightarrow> py_error + (sample_value namespace \<times> sample_value namespace)" where
  "sample_exec [] g l = Inr (g, l)"
| "sample_exec (Import ms # ss) g l = sample_exec ss g (bind_modules ms l)"
| "sample_exec (Assign [Name x] e # ss) g l =
     (case sample_eval (Some e) g l of
        Inl err \<Rightarrow> Inl err
      | Inr v \<Rightarrow> sample_exec ss g (l(x \<mapsto> v)))"
| "sample_exec (Expr e # ss) g l =
     (case sample_eval (Some e) g l of
        Inl err \<Rightarrow> Inl err
      | Inr v \<Rightarrow> sample_exec ss g l)"
| "sample_exec (Pass # ss) g l = sample_exec ss g l"
| "sample_exec (s # ss) g l = Inl (RuntimeError ''not in the sample'')"

definition sample_to_dict :: "sample_value \<Rightarrow> py_error + json" where
  "sample_to_dict v =
     (case v of ChartVal j \<Rightarrow> Inr j | IntVal n \<Rightarrow> Inl (AttributeError ''to_dict'')
      | ModuleVal m \<Rightarrow> Inl (AttributeError ''to_dict''))"

text \<open>
  The parser of the sample knows four blocks: the empty one, and the two lines
  \<^verbatim>\<open>import altair\<close> and \<^verbatim>\<open>chart = altair.Chart().mark_bar()\<close> alone, followed by
  \<^verbatim>\<open>chart\<close>, and followed by \<^verbatim>\<open>pass\<close>.
\<close>

definition sample_block :: "sample_expr stmt list" where
  "sample_block = [Import [''altair''], Assign [Name ''chart''] BarChart]"

definition sample_parse :: "string \<Rightarrow> py_error + sample_expr stmt list" where
  "sample_parse code =
     (if code = [] then Inr []
      else if code = ''import altair\<newline>chart = altair.Chart().mark_bar()\<newline>chart''
      then Inr (sample_block @ [Expr (Name ''chart'')])
      else if code = ''import altair\<newline>chart = altair.Chart().mark_bar()''
      then Inr sample_block
      else if code = ''import altair\<newline>chart = altair.Chart().mark_bar()\<newline>pass''
      then Inr (sample_block @ [Pass])
      else Inl SyntaxError)"

text \<open>
  The serialiser of the sample writes a specification without string escapes, in
  one layout; its parser knows the payload of the sample plot.
\<close>

definition str_int :: "int \<Rightarrow> string" where
  "str_int i = (if i < 0 then ''-'' @ str_nat (nat (- i)) else str_nat (nat i))"

fun sample_dumps :: "json \<Rightarrow> string" where
  "sample_dumps JNull = ''null''"
| "sample_dumps (JBool b) = (if b then ''true'' else ''false'')"
| "sample_dumps (JInt i) = str_int i"
| \<open>sample_dumps (JStr s) = ''"'' @ s @ ''"''\<close>
| "sample_dumps (JList xs) = ''['' @ str_join '', '' (map sample_dumps xs) @ '']''"
| \<open>sample_dumps (JDict kvs) =
     ''{'' @ str_join '', '' (map (\<lambda>kv. ''"'' @ fst kv @ ''": '' @ sample_dumps (snd kv)) kvs)
     @ ''}''\<close>

definition sample_loads :: "string \<Rightarrow> py_error + json" where
  \<open>sample_loads s =
     (if s = ''{"mode": "vega-lite", "spec": {"mark": "bar"}}''
      then Inr (JDict [(''mode'', JStr ''vega-lite''), (''spec'', bar_spec)])
      else Inl ValueError)\<close>

text \<open>
  The \<^verbatim>\<open>relpath\<close> of the sample answers for a path at or below the start directory.
\<close>

definition sample_relpath :: "string \<Rightarrow> string \<Rightarrow> py_error + string" where
  "sample_relpath path start =
     (if path = [] then Inl ValueError
      else if path = start then Inr ''.''
      else if prefix (start @ ''/'') path then Inr (drop (length start + 1) path)
      else Inl ValueError)"

definition sample_rt :: "(sample_expr, sample_value) runtime" where
  "sample_rt =
     \<lparr>ast_parse = sample_parse, py_exec = sample_exec, py_eval = sample_eval,
      to_dict = sample_to_dict, json_dumps = sample_dumps, json_dumps_indent = sample_dumps,
      json_loads = sample_loads, os_relpath = sample_relpath, gettext = (\<lambda>msg. msg)\<rparr>"

definition sample_env :: build_env where
  "sample_env = \<lparr>srcdir = ''/docs/source'', serialnos = (\<lambda>category. 0)\<rparr>"

definition sample_directive :: "(string \<rightharpoonup> string) \<Rightarrow> string list \<Rightarrow> directive" where
  "sample_directive opts lines =
     \<lparr>options = opts, content = lines,
      document_source = ''/docs/source/gallery/index.rst'', lineno = 12\<rparr>"

definition sample_lines :: "string list" where
  "sample_lines = [''import altair'', ''chart = altair.Chart().mark_bar()'', ''chart'']"

definition sample_listing :: literal_block where
  "sample_listing =
     \<lparr>rawsource = ''import altair\<newline>chart = altair.Chart().mark_bar()\<newline>chart'',
      astext = ''import altair\<newline>chart = altair.Chart().mark_bar()\<newline>chart'',
      language = ''python''\<rparr>"

text \<open>
  The plot node of the sample directive when it is given serial number \<open>n\<close> and
  alt-text \<open>a\<close>.
\<close>

definition sample_plot :: "nat \<Rightarrow> string option \<Rightarrow> altair_plot" where
  "sample_plot n a =
     \<lparr>target_id = ''index-rst-altair-source-'' @ str_nat n,
      div_id = ''index-rst-altair-plot-'' @ str_nat n,
      source = sample_listing, relpath = ''gallery'',
      rst_source = ''/docs/source/gallery/index.rst'',
      rst_lineno = 12, spec = bar_spec, alt = a\<rparr>"

definition sample_translator :: translator where
  "sample_translator = \<lparr>body = [], builder_outdir = ''/docs/build/html''\<rparr>"

definition sample_fs :: filesystem where
  "sample_fs = \<lparr>dirs = {''/docs/build/html''}, files = Map.empty, refused = {}\<rparr>"

text \<open>
  Two more blocks: one that ends in the assignment, one that ends in \<^verbatim>\<open>pass\<close>.
\<close>

definition sample_assign_lines :: "string list" where
  "sample_assign_lines = [''import altair'', ''chart = altair.Chart().mark_bar()'']"

definition sample_pass_lines :: "string list" where
  "sample_pass_lines = [''import altair'', ''chart = altair.Chart().mark_bar()'', ''pass'']"

definition sample_assign_listing :: literal_block where
  "sample_assign_listing =
     \<lparr>rawsource = ''import altair\<newline>chart = altair.Chart().mark_bar()'',
      astext = ''import altair\<newline>chart = altair.Chart().mark_bar()'',
      language = ''python''\<rparr>"

text \<open>
  A build of three invocations in one document: the sample directive as it is, with
  \<^verbatim>\<open>hide-code\<close>, and with \<^verbatim>\<open>code-below\<close>.
\<close>

definition sample_build :: "directive list" where
  "sample_build =
     [sample_directive Map.empty sample_lines,
      sample_directive [''hide-code'' \<mapsto> ''''] sample_lines,
      sample_directive [''code-below'' \<mapsto> ''''] sample_lines]"

section \<open>Properties\<close>

subsection \<open>Evaluating the sample\<close>

lemmas sample_defs = sample_rt_def sample_parse_def sample_block_def sample_lookup_def
  sample_to_dict_def sample_relpath_def
  sample_env_def sample_directive_def bar_spec_def

lemmas run_defs = run_def exec_then_eval_def list_pop_def new_serialno_def basename_def
  dirname_def str_replace_def str_nat.simps digit_char_def Let_def

lemmas sample_defs2 = sample_defs sample_lines_def sample_listing_def sample_plot_def

lemma sample_run_plain:
  "fst (run sample_rt (sample_directive Map.empty sample_lines) sample_env)
   = Inr [Target [''index-rst-altair-source-0''], Literal_block sample_listing,
          Altair_plot (sample_plot 0 None)]"
  by (simp add: sample_defs2 run_defs)

lemma sample_run_below:
  "fst (run sample_rt (sample_directive [''code-below'' \<mapsto> ''''] sample_lines) sample_env)
   = Inr [Target [''index-rst-altair-source-0''], Altair_plot (sample_plot 0 None),
          Literal_block sample_listing]"
  by (simp add: sample_defs2 run_defs)

lemma collapse_run: "fst (run rt d env) = r \<Longrightarrow> run rt d env = (r, snd (run rt d env))"
  by (simp add: prod_eq_iff)

subsection \<open>What a successful invocation returns\<close>

lemma run_Inr:
  assumes "run rt self env = (Inr ns, env')"
  shows "\<exists>chart S rel.
           exec_then_eval rt (str_join ''\<newline>'' (content self)) = Inr chart
         \<and> to_dict rt chart = Inr S
         \<and> ''hide-code'' \<notin> dom (options self)
         \<and> ''show-json'' \<notin> dom (options self)
         \<and> os_relpath rt (dirname (document_source self)) (srcdir env) = Inr rel
         \<and> env' = snd (new_serialno env ''altair-plot'')
         \<and> (let code = str_join ''\<newline>'' (content self);
                 base = str_replace CHR ''.'' CHR ''-'' (basename (document_source self));
                 n = fst (new_serialno env ''altair-plot'');
                 src = \<lparr>rawsource = code, astext = code, language = ''python''\<rparr>;
                 plot = Altair_plot
                   \<lparr>target_id = base @ ''-altair-source-'' @ str_nat n,
                    div_id = base @ ''-altair-plot-'' @ str_nat n, source = src, relpath = rel,
                    rst_source = document_source self, rst_lineno = lineno self, spec = S,
                    alt = options self ''alt''\<rparr>
             in ns = (if ''code-below'' \<in> dom (options self)
                      then [Target [base @ ''-altair-source-'' @ str_nat n], plot, Literal_block src]
                      else [Target [base @ ''-altair-source-'' @ str_nat n], Literal_block src, plot]))"
  using assms
  unfolding run_def Let_def new_serialno_def
  by (auto split: sum.splits if_splits option.splits prod.splits)

lemma run_ok:
  assumes "exec_then_eval rt (str_join ''\<newline>'' (content self)) = Inr chart"
      and "to_dict rt chart = Inr S"
      and "''hide-code'' \<notin> dom (options self)"
      and "''show-json'' \<notin> dom (options self)"
      and "os_relpath rt (dirname (document_source self)) (srcdir env) = Inr rel"
  shows "\<exists>ns. run rt self env = (Inr ns, snd (new_serialno env ''altair-plot''))"
  using assms unfolding run_def Let_def new_serialno_def by auto

lemma run_hide_code:
  "''hide-code'' \<in> dom (options self) \<Longrightarrow> run rt self env \<noteq> (Inr ns, env')"
  using run_Inr [of rt self env ns env'] by blast

lemma run_show_json:
  "''show-json'' \<in> dom (options self) \<Longrightarrow> run rt self env \<noteq> (Inr ns, env')"
  using run_Inr [of rt self env ns env'] by blast

subsection \<open>Decimal numerals and identifiers\<close>

lemma lt10_cases: "n < 10 \<Longrightarrow> n \<in> {0, 1, 2, 3, 4, 5, 6, 7, 8, 9::nat}"
  by auto

lemma digit_char_inj: "n < 10 \<Longrightarrow> m < 10 \<Longrightarrow> digit_char n = digit_char m \<Longrightarrow> n = m"
  using lt10_cases [of n] lt10_cases [of m] by (auto simp: digit_char_def)

lemma digit_char_digit: "n < 10 \<Longrightarrow> digit_char n \<in> set ''0123456789''"
  using lt10_cases [of n] by (auto simp: digit_char_def)

lemma str_nat_digits: "set (str_nat n) \<subseteq> set ''0123456789''"
proof (induction n rule: str_nat.induct)
  case (1 n)
  show ?case
  proof (cases "n < 10")
    case True
    then show ?thesis using digit_char_digit [of n] by (subst str_nat.simps) simp
  next
    case False
    have "n mod 10 < 10" by simp
    then have "digit_char (n mod 10) \<in> set ''0123456789''" by (rule digit_char_digit)
    with False 1 show ?thesis by (subst str_nat.simps) simp
  qed
qed

lemma str_nat_not_Nil: "str_nat n \<noteq> []"
  by (subst str_nat.simps) simp

lemma str_nat_inj: "str_nat n = str_nat m \<Longrightarrow> n = m"
proof (induction n arbitrary: m rule: str_nat.induct)
  case (1 n)
  show ?case
  proof (cases "n < 10")
    case n: True
    show ?thesis
    proof (cases "m < 10")
      case True
      with n "1.prems" show ?thesis
        by (simp add: str_nat.simps [of n] str_nat.simps [of m] digit_char_inj)
    next
      case False
      with n "1.prems" show ?thesis
        using str_nat_not_Nil [of "m div 10"]
        by (simp add: str_nat.simps [of n] str_nat.simps [of m])
    qed
  next
    case n: False
    show ?thesis
    proof (cases "m < 10")
      case True
      with n "1.prems" show ?thesis
        using str_nat_not_Nil [of "n div 10"]
        by (simp add: str_nat.simps [of n] str_nat.simps [of m])
    next
      case False
      with n "1.prems" have eq: "str_nat (n div 10) = str_nat (m div 10)"
        and d: "digit_char (n mod 10) = digit_char (m mod 10)"
        by (simp_all add: str_nat.simps [of n] str_nat.simps [of m])
      from "1.IH" [OF n eq] have "n div 10 = m div 10" .
      moreover from d have "n mod 10 = m mod 10" by (simp add: digit_char_inj)
      ultimately show ?thesis by (metis div_mult_mod_eq)
    qed
  qed
qed

lemma after_last_sep:
  assumes "c \<notin> set ds"
  shows "rev (takeWhile (\<lambda>x. x \<noteq> c) (rev (xs @ c # ds))) = ds"
proof -
  from assms have all: "takeWhile (\<lambda>x. x \<noteq> c) (rev ds) = rev ds"
    by (auto simp: takeWhile_eq_all_conv)
  have "takeWhile (\<lambda>x. x \<noteq> c) (rev (xs @ c # ds)) = takeWhile (\<lambda>x. x \<noteq> c) (rev ds)"
    by (simp add: takeWhile_tail)
  also note all
  finally show ?thesis by (simp only: rev_rev_ident)
qed

lemma split_at_last_sep:
  assumes "xs @ c # ds = ys @ c # es" and "c \<notin> set ds" and "c \<notin> set es"
  shows "ds = es"
  using after_last_sep [OF assms(2), of xs] after_last_sep [OF assms(3), of ys] assms(1)
  by simp

lemma str_nat_no_dash: "CHR ''-'' \<notin> set (str_nat n)"
  using str_nat_digits [of n] by auto

lemma id_serial:
  assumes "b1 @ s1 @ CHR ''-'' # str_nat n = b2 @ s2 @ CHR ''-'' # str_nat m"
  shows "n = m"
proof -
  from assms have "(b1 @ s1) @ CHR ''-'' # str_nat n = (b2 @ s2) @ CHR ''-'' # str_nat m"
    by simp
  then have "str_nat n = str_nat m"
    by (rule split_at_last_sep) (rule str_nat_no_dash)+
  then show ?thesis by (rule str_nat_inj)
qed

subsection \<open>The environment along a build\<close>

lemma run_serial_mono: "serialnos env c \<le> serialnos (snd (run rt d env)) c"
  unfolding run_def Let_def new_serialno_def
  by (auto split: sum.splits option.splits)

lemma env_at_Suc:
  "k < length ds \<Longrightarrow> env_at rt ds env (Suc k) = snd (run rt (ds ! k) (env_at rt ds env k))"
proof (induction ds arbitrary: env k)
  case Nil
  then show ?case by simp
next
  case (Cons d ds)
  show ?case
  proof (cases k)
    case 0
    then show ?thesis by (cases ds) simp_all
  next
    case (Suc k')
    with Cons.prems have "k' < length ds" by simp
    from Cons.IH [OF this] Suc show ?thesis by simp
  qed
qed

lemma env_at_mono:
  assumes "i \<le> j" and "j \<le> length ds"
  shows "serialnos (env_at rt ds env i) c \<le> serialnos (env_at rt ds env j) c"
  using assms
proof (induction j rule: dec_induct)
  case base
  show ?case by simp
next
  case (step k)
  then have "k < length ds" by simp
  from env_at_Suc [OF this, of rt env] run_serial_mono [of "env_at rt ds env k" c rt "ds ! k"]
  have "serialnos (env_at rt ds env k) c \<le> serialnos (env_at rt ds env (Suc k)) c" by simp
  with step show ?case by simp
qed

lemma run_all_nth:
  "k < length ds \<Longrightarrow> fst (run_all rt ds env) ! k = fst (run rt (ds ! k) (env_at rt ds env k))"
proof (induction ds arbitrary: env k)
  case Nil
  then show ?case by simp
next
  case (Cons d ds)
  show ?case
  proof (cases k)
    case 0
    then show ?thesis by (simp add: split_beta)
  next
    case (Suc k')
    with Cons.prems have "k' < length ds" by simp
    from Cons.IH [OF this] Suc show ?thesis by (simp add: split_beta)
  qed
qed

lemma run_node_ids:
  assumes "run rt d env = (Inr ns, env')"
  shows "\<exists>b. node_ids ns = {b @ ''-altair-source-'' @ str_nat (serialnos env ''altair-plot''),
                             b @ ''-altair-plot-'' @ str_nat (serialnos env ''altair-plot'')}
            \<and> serialnos env' ''altair-plot'' = Suc (serialnos env ''altair-plot'')"
  using run_Inr [OF assms] unfolding Let_def node_ids_def new_serialno_def
  by (auto split: if_splits)

subsection \<open>The last statement of a block\<close>

lemma stmt_value_Inl: "stmt_value s = Inl e \<Longrightarrow> e = AttributeError ''value''"
  by (cases s) simp_all

text \<open>The statement classes without a \<^verbatim>\<open>value\<close> field are all but five.\<close>

lemma stmt_value_no_field:
  "stmt_value s = Inl (AttributeError ''value'') \<longleftrightarrow>
     (\<forall>v. s \<noteq> Expr v) \<and> (\<forall>ts v. s \<noteq> Assign ts v) \<and> (\<forall>t opr v. s \<noteq> AugAssign t opr v)
     \<and> (\<forall>t a v. s \<noteq> AnnAssign t a v) \<and> (\<forall>v. s \<noteq> Return v)"
  by (cases s) simp_all

lemma list_pop_snoc: "list_pop (xs @ [x]) = Inr (x, xs)"
  by (simp add: list_pop_def)

lemma exec_then_eval_snoc:
  assumes "ast_parse rt code = Inr (block @ [final])"
  shows "exec_then_eval rt code =
           (case stmt_value final of
              Inl e \<Rightarrow> Inl e
            | Inr v \<Rightarrow>
                (case py_exec rt block Map.empty Map.empty of
                   Inl e \<Rightarrow> Inl e
                 | Inr (g, l) \<Rightarrow> py_eval rt v g l))"
  using assms by (simp add: exec_then_eval_def list_pop_snoc)

subsection \<open>The placeholder format\<close>

lemma percent_format_plain:
  "CHR ''%'' \<notin> set s \<Longrightarrow> percent_format s arg True = Inr s"
  by (induction s) auto


subsection \<open>Paths and the artifact file\<close>

lemma basename_path_join:
  assumes "CHR ''/'' \<notin> set b"
  shows "basename (path_join a b) = b"
proof -
  from assms have all: "takeWhile (\<lambda>c. c \<noteq> CHR ''/'') (rev b) = rev b"
    by (auto simp: takeWhile_eq_all_conv)
  from assms have nb: "\<not> startswith_sep b"
    by (cases b) (auto simp: startswith_sep_def)
  have "takeWhile (\<lambda>c. c \<noteq> CHR ''/'') (rev (path_join a b))
        = takeWhile (\<lambda>c. c \<noteq> CHR ''/'') (rev b)"
  proof (cases "a = []")
    case True
    with nb show ?thesis by (simp add: path_join_def)
  next
    case False
    then obtain a' x where a: "a = a' @ [x]" by (metis rev_exhaust)
    show ?thesis
    proof (cases "x = CHR ''/''")
      case True
      with a nb show ?thesis by (simp add: path_join_def takeWhile_tail)
    next
      case False
      with a nb show ?thesis by (simp add: path_join_def takeWhile_tail)
    qed
  qed
  also note all
  finally show ?thesis by (simp only: basename_def rev_rev_ident)
qed

lemma prefix_path_join: "\<not> startswith_sep b \<Longrightarrow> prefix a (path_join a b)"
  by (simp add: path_join_def)

lemma html_visit_SkipNode:
  assumes "html_visit_altair_plot rt self fs node = (SkipNode, self', fs')"
  shows "files fs' =
           (files fs)(path_join (path_join (builder_outdir self) (relpath node))
                        (div_id node @ ''.vl.json'')
                      \<mapsto> json_dumps rt (embed_payload node))"
  using assms
  unfolding html_visit_altair_plot_def Let_def os_makedirs_def write_file_def
  by (auto split: if_splits sum.splits)

lemma html_visit_ok:
  assumes "path_join (builder_outdir self) (relpath node) \<notin> refused fs"
      and "path_join (path_join (builder_outdir self) (relpath node)) (div_id node @ ''.vl.json'')
             \<notin> refused fs \<union> dirs fs"
      and "path_join (path_join (builder_outdir self) (relpath node)) (div_id node @ ''.vl.json'')
             \<noteq> path_join (builder_outdir self) (relpath node)"
  shows "fst (html_visit_altair_plot rt self fs node) = SkipNode"
  using assms
  unfolding html_visit_altair_plot_def Let_def os_makedirs_def write_file_def os_path_exists_def
  by (auto split: if_splits sum.splits)

lemma run_div_id:
  assumes "run rt self env = (Inr ns, env')" and "Altair_plot p \<in> set ns"
  shows "CHR ''/'' \<notin> set (div_id p)"
proof -
  have b: "CHR ''/'' \<notin> set (basename s)" for s
    using set_takeWhileD [of "CHR ''/''" "\<lambda>c. c \<noteq> CHR ''/''" "rev s"]
    by (auto simp: basename_def)
  have d: "CHR ''/'' \<notin> set (str_nat n)" for n
    using str_nat_digits [of n] by auto
  from run_Inr [OF assms(1)] assms(2) b d show ?thesis
    unfolding Let_def by (auto simp: str_replace_def split: if_splits)
qed

lemma sample_html_visit:
  \<open>fst (html_visit_altair_plot sample_rt sample_translator sample_fs (sample_plot 0 None)) = SkipNode\<close>
  by (simp add: html_visit_altair_plot_def sample_rt_def sample_translator_def sample_fs_def
      sample_plot_def path_join_def startswith_sep_def os_path_exists_def os_makedirs_def
      write_file_def Let_def)

subsection \<open>The sample build\<close>

lemma sample_build_results:
  "fst (run_all sample_rt sample_build sample_env)
   = [Inr [Target [''index-rst-altair-source-0''], Literal_block sample_listing,
           Altair_plot (sample_plot 0 None)],
      Inl (UnboundLocalError ''source_literal''),
      Inr [Target [''index-rst-altair-source-2''], Altair_plot (sample_plot 2 None),
           Literal_block sample_listing]]"
  by (simp add: sample_build_def sample_defs2 run_defs split_beta)

section \<open>The claims\<close>

text \<open>
  C1, as the code has it. The claim puts the plot node right after the anchor when
  \<^verbatim>\<open>code-below\<close> is absent; the code does so when the option is present. In every
  sequence that \<^verbatim>\<open>run\<close> returns the target node is first; with \<^verbatim>\<open>code-below\<close> the
  plot node is second and the listing nodes follow it (the code is below the plot),
  without \<^verbatim>\<open>code-below\<close> the listing nodes come second and the plot node is last.
\<close>

theorem run_node_order:
  assumes "run rt self env = (Inr ns, env')"
  shows "\<exists>t p listing.
           set listing \<subseteq> range Literal_block
         \<and> ns = (if ''code-below'' \<in> dom (options self)
                 then [Target t, Altair_plot p] @ listing
                 else [Target t] @ listing @ [Altair_plot p])"
proof -
  from run_Inr [OF assms] obtain t p b where
    "ns = (if ''code-below'' \<in> dom (options self)
           then [Target t, Altair_plot p, Literal_block b]
           else [Target t, Literal_block b, Altair_plot p])"
    unfolding Let_def by blast
  then have "set [Literal_block b] \<subseteq> range Literal_block
         \<and> ns = (if ''code-below'' \<in> dom (options self)
                 then [Target t, Altair_plot p] @ [Literal_block b]
                 else [Target t] @ [Literal_block b] @ [Altair_plot p])"
    by simp
  then show ?thesis by blast
qed

text \<open>
  The sample directive with \<^verbatim>\<open>code-below\<close>: target, plot, listing.
\<close>

theorem run_node_order_witness:
  "run sample_rt (sample_directive [''code-below'' \<mapsto> ''''] sample_lines) sample_env
     = (Inr [Target [''index-rst-altair-source-0''], Altair_plot (sample_plot 0 None),
             Literal_block sample_listing],
        snd (run sample_rt (sample_directive [''code-below'' \<mapsto> ''''] sample_lines) sample_env))
   \<and> (\<exists>t p listing. set listing \<subseteq> range Literal_block
         \<and> [Target [''index-rst-altair-source-0''], Altair_plot (sample_plot 0 None),
             Literal_block sample_listing] = [Target t, Altair_plot p] @ listing)"
proof -
  have h: "run sample_rt (sample_directive [''code-below'' \<mapsto> ''''] sample_lines) sample_env
     = (Inr [Target [''index-rst-altair-source-0''], Altair_plot (sample_plot 0 None),
             Literal_block sample_listing],
        snd (run sample_rt (sample_directive [''code-below'' \<mapsto> ''''] sample_lines) sample_env))"
    by (rule collapse_run) (rule sample_run_below)
  from run_node_order [OF h] h show ?thesis by (simp add: sample_directive_def)
qed

text \<open>
  C1 as the claim states it fails: the sample directive without \<^verbatim>\<open>code-below\<close>
  returns the listing right after the anchor and the plot node last.
\<close>

theorem code_below_absent_counterexample:
  "''code-below'' \<notin> dom (options (sample_directive Map.empty sample_lines))
   \<and> fst (run sample_rt (sample_directive Map.empty sample_lines) sample_env)
       = Inr [Target [''index-rst-altair-source-0''], Literal_block sample_listing,
              Altair_plot (sample_plot 0 None)]"
  by (simp add: sample_defs2 run_defs)

text \<open>
  C2, as the code has it. The claim has every block whose last statement is not an
  expression fail with a syntax error. The code reads the \<^verbatim>\<open>value\<close> field of the last
  statement, whatever its class. When the class has no such field (\<^verbatim>\<open>pass\<close>,
  \<^verbatim>\<open>import\<close>, \<^verbatim>\<open>del\<close>, a control statement, a definition), the read raises
  AttributeError, before anything is executed: \<^verbatim>\<open>exec_then_eval\<close> fails with that
  error, and \<^verbatim>\<open>run\<close> raises it, returns no node and leaves the environment as it
  was. When the last statement is an assignment, nothing is rejected: the statements
  before it are executed and the value returned is that of its right-hand side.
\<close>

theorem final_statement_kinds:
  assumes "ast_parse rt (str_join ''\<newline>'' (content self)) = Inr (block @ [final])"
  shows "(stmt_value final = Inl (AttributeError ''value'')
            \<longrightarrow> exec_then_eval rt (str_join ''\<newline>'' (content self))
                  = Inl (AttributeError ''value'')
              \<and> run rt self env = (Inl (AttributeError ''value''), env))
       \<and> (\<forall>targets v. final = Assign targets v
            \<longrightarrow> exec_then_eval rt (str_join ''\<newline>'' (content self))
                  = (case py_exec rt block Map.empty Map.empty of
                       Inl e \<Rightarrow> Inl e
                     | Inr (g, l) \<Rightarrow> py_eval rt (Some v) g l))"
  using exec_then_eval_snoc [OF assms] by (auto simp: run_def)

text \<open>
  The block that ends in \<^verbatim>\<open>pass\<close> and the block that ends in the assignment.
\<close>

theorem final_statement_kinds_witness:
  "ast_parse sample_rt (str_join ''\<newline>'' (content (sample_directive Map.empty sample_pass_lines)))
     = Inr (sample_block @ [Pass])
   \<and> stmt_value (Pass :: sample_expr stmt) = Inl (AttributeError ''value'')
   \<and> exec_then_eval sample_rt (str_join ''\<newline>'' (content (sample_directive Map.empty sample_pass_lines)))
       = Inl (AttributeError ''value'')
   \<and> run sample_rt (sample_directive Map.empty sample_pass_lines) sample_env
       = (Inl (AttributeError ''value''), sample_env)
   \<and> ast_parse sample_rt (str_join ''\<newline>'' (content (sample_directive Map.empty sample_assign_lines)))
       = Inr ([Import [''altair'']] @ [Assign [Name ''chart''] BarChart])
   \<and> exec_then_eval sample_rt (str_join ''\<newline>'' (content (sample_directive Map.empty sample_assign_lines)))
       = Inr (ChartVal bar_spec)"
proof -
  have p: "ast_parse sample_rt (str_join ''\<newline>'' (content (sample_directive Map.empty sample_pass_lines)))
     = Inr (sample_block @ [Pass])"
    by (simp add: sample_pass_lines_def sample_defs2)
  have a: "ast_parse sample_rt (str_join ''\<newline>'' (content (sample_directive Map.empty sample_assign_lines)))
       = Inr ([Import [''altair'']] @ [Assign [Name ''chart''] BarChart])"
    by (simp add: sample_assign_lines_def sample_defs2)
  from final_statement_kinds [OF p, of sample_env] final_statement_kinds [OF a, of sample_env] p a
  show ?thesis by (simp add: sample_rt_def sample_lookup_def)
qed

text \<open>
  C2 as the claim states it fails: the last statement of the block is an assignment,
  \<^verbatim>\<open>exec_then_eval\<close> returns the chart, and \<^verbatim>\<open>run\<close> returns a plot node.
\<close>

theorem final_assignment_counterexample:
  "ast_parse sample_rt (str_join ''\<newline>'' sample_assign_lines)
     = Inr [Import [''altair''], Assign [Name ''chart''] BarChart]
   \<and> exec_then_eval sample_rt (str_join ''\<newline>'' sample_assign_lines) = Inr (ChartVal bar_spec)
   \<and> fst (run sample_rt (sample_directive Map.empty sample_assign_lines) sample_env)
       = Inr [Target [''index-rst-altair-source-0''], Literal_block sample_assign_listing,
              Altair_plot ((sample_plot 0 None)\<lparr>source := sample_assign_listing\<rparr>)]"
  by (simp add: sample_assign_lines_def sample_assign_listing_def sample_defs2 run_defs)

text \<open>
  C3 at a failing input: with \<^verbatim>\<open>hide-code\<close> the local \<^verbatim>\<open>source_literal\<close> is never
  bound, and \<^verbatim>\<open>plot_node['source'] = source_literal\<close> raises; no node sequence is
  returned.
\<close>

theorem hide_code_raises:
  "fst (run sample_rt (sample_directive [''hide-code'' \<mapsto> ''''] sample_lines) sample_env)
   = Inl (UnboundLocalError ''source_literal'')"
  by (simp add: sample_defs2 run_defs)

text \<open>
  C4 at a failing input: with \<^verbatim>\<open>show-json\<close> the listing is built from the name
  \<^verbatim>\<open>specjson\<close>, which is bound nowhere; no node sequence is returned.
\<close>

theorem show_json_raises:
  "fst (run sample_rt (sample_directive [''show-json'' \<mapsto> ''''] sample_lines) sample_env)
   = Inl (NameError ''specjson'')"
  by (simp add: sample_defs2 run_defs)

text \<open>
  C5: when the block parses to statements followed by an expression statement, the
  statements run from two empty namespaces, the expression evaluates in the
  namespaces they leave to a value \<open>chart\<close>, and \<^verbatim>\<open>chart.to_dict()\<close> returns \<open>S\<close>,
  then \<^verbatim>\<open>exec_then_eval\<close> returns \<open>chart\<close>, and every node sequence that \<^verbatim>\<open>run\<close>
  returns holds one plot node, whose specification is \<open>S\<close>.
\<close>

theorem snippet_specification:
  assumes "ast_parse rt (str_join ''\<newline>'' (content self)) = Inr (block @ [Expr e])"
      and "py_exec rt block Map.empty Map.empty = Inr (g, l)"
      and "py_eval rt (Some e) g l = Inr chart"
      and "to_dict rt chart = Inr S"
  shows "exec_then_eval rt (str_join ''\<newline>'' (content self)) = Inr chart
       \<and> (\<forall>ns env'. run rt self env = (Inr ns, env')
            \<longrightarrow> (\<exists>p. Altair_plot p \<in> set ns \<and> spec p = S
                     \<and> (\<forall>q. Altair_plot q \<in> set ns \<longrightarrow> q = p)))"
proof -
  from exec_then_eval_snoc [OF assms(1)] assms(2,3)
  have v: "exec_then_eval rt (str_join ''\<newline>'' (content self)) = Inr chart" by simp
  have "\<exists>p. Altair_plot p \<in> set ns \<and> spec p = S \<and> (\<forall>q. Altair_plot q \<in> set ns \<longrightarrow> q = p)"
    if "run rt self env = (Inr ns, env')" for ns env'
    using run_Inr [OF that] v assms(4) unfolding Let_def by (auto split: if_splits)
  with v show ?thesis by blast
qed

text \<open>
  The sample block: \<^verbatim>\<open>chart\<close> is evaluated in the namespace in which the two
  statements before it bound \<^verbatim>\<open>altair\<close> and \<^verbatim>\<open>chart\<close>.
\<close>

theorem snippet_specification_witness:
  "ast_parse sample_rt (str_join ''\<newline>'' (content (sample_directive Map.empty sample_lines)))
     = Inr (sample_block @ [Expr (Name ''chart'')])
   \<and> py_exec sample_rt sample_block Map.empty Map.empty
       = Inr (Map.empty, [''altair'' \<mapsto> ModuleVal ''altair'', ''chart'' \<mapsto> ChartVal bar_spec])
   \<and> py_eval sample_rt (Some (Name ''chart'')) Map.empty
        [''altair'' \<mapsto> ModuleVal ''altair'', ''chart'' \<mapsto> ChartVal bar_spec]
       = Inr (ChartVal bar_spec)
   \<and> to_dict sample_rt (ChartVal bar_spec) = Inr bar_spec
   \<and> exec_then_eval sample_rt (str_join ''\<newline>'' (content (sample_directive Map.empty sample_lines)))
       = Inr (ChartVal bar_spec)
   \<and> run sample_rt (sample_directive Map.empty sample_lines) sample_env
       = (Inr [Target [''index-rst-altair-source-0''], Literal_block sample_listing,
               Altair_plot (sample_plot 0 None)],
          snd (run sample_rt (sample_directive Map.empty sample_lines) sample_env))
   \<and> spec (sample_plot 0 None) = bar_spec"
proof -
  have p: "ast_parse sample_rt (str_join ''\<newline>'' (content (sample_directive Map.empty sample_lines)))
     = Inr (sample_block @ [Expr (Name ''chart'')])"
    by (simp add: sample_defs2)
  have x: "py_exec sample_rt sample_block Map.empty Map.empty
       = Inr (Map.empty, [''altair'' \<mapsto> ModuleVal ''altair'', ''chart'' \<mapsto> ChartVal bar_spec])"
    by (simp add: sample_rt_def sample_block_def sample_lookup_def)
  have v: "py_eval sample_rt (Some (Name ''chart'')) Map.empty
        [''altair'' \<mapsto> ModuleVal ''altair'', ''chart'' \<mapsto> ChartVal bar_spec]
       = Inr (ChartVal bar_spec)"
    by (simp add: sample_rt_def sample_lookup_def)
  have d: "to_dict sample_rt (ChartVal bar_spec) = Inr bar_spec"
    by (simp add: sample_rt_def sample_to_dict_def)
  have r: "run sample_rt (sample_directive Map.empty sample_lines) sample_env
       = (Inr [Target [''index-rst-altair-source-0''], Literal_block sample_listing,
               Altair_plot (sample_plot 0 None)],
          snd (run sample_rt (sample_directive Map.empty sample_lines) sample_env))"
    by (rule collapse_run) (rule sample_run_plain)
  from snippet_specification [OF p x v d, of sample_env] p x v d r
  show ?thesis by auto
qed

text \<open>
  C6: when the HTML visitor ends with SkipNode, it has written one file and changed
  no other. The file is \<^verbatim>\<open>os.path.join\<close> of the directory and the name, where the
  directory is \<^verbatim>\<open>os.path.join\<close> of the output root and the node's relative path and
  the name is the div identifier followed by \<^verbatim>\<open>.vl.json\<close>. For a div identifier
  without \<^verbatim>\<open>/\<close> and a relative path that does not start with \<^verbatim>\<open>/\<close>, the basename of
  the file is that name and the path starts with the output root. Where the json
  library reads back what it wrote for this payload, the content of the file parses
  to the dict of \<^verbatim>\<open>mode\<close>, which is \<^verbatim>\<open>vega-lite\<close>, and \<^verbatim>\<open>spec\<close>, which is the node's
  specification.
\<close>

theorem html_artifact:
  assumes "html_visit_altair_plot rt self fs node = (SkipNode, self', fs')"
      and "json_loads rt (json_dumps rt (embed_payload node)) = Inr (embed_payload node)"
      and "CHR ''/'' \<notin> set (div_id node)"
      and "\<not> startswith_sep (relpath node)"
  shows "\<exists>dest content.
           files fs' = (files fs)(dest \<mapsto> content)
         \<and> dest = path_join (path_join (builder_outdir self) (relpath node))
                     (div_id node @ ''.vl.json'')
         \<and> basename dest = div_id node @ ''.vl.json''
         \<and> prefix (builder_outdir self) dest
         \<and> json_loads rt content
             = Inr (JDict [(''mode'', JStr ''vega-lite''), (''spec'', spec node)])"
proof -
  let ?dir = "path_join (builder_outdir self) (relpath node)"
  let ?name = "div_id node @ ''.vl.json''"
  from assms(3) have name: "CHR ''/'' \<notin> set ?name" by simp
  then have rel: "\<not> startswith_sep ?name"
    by (cases "div_id node") (auto simp: startswith_sep_def)
  have "prefix (builder_outdir self) ?dir" using assms(4) by (rule prefix_path_join)
  moreover have "prefix ?dir (path_join ?dir ?name)" using rel by (rule prefix_path_join)
  ultimately have "prefix (builder_outdir self) (path_join ?dir ?name)"
    by (rule prefix_order.trans)
  moreover note html_visit_SkipNode [OF assms(1)] basename_path_join [OF name, of ?dir]
  moreover from assms(2)
  have "json_loads rt (json_dumps rt (embed_payload node))
        = Inr (JDict [(''mode'', JStr ''vega-lite''), (''spec'', spec node)])"
    by (simp add: embed_payload_def)
  ultimately show ?thesis by blast
qed

text \<open>
  The sample plot node, rendered under \<^verbatim>\<open>/docs/build/html\<close>.
\<close>

theorem html_artifact_witness:
  \<open>html_visit_altair_plot sample_rt sample_translator sample_fs (sample_plot 0 None)
     = (SkipNode,
        fst (snd (html_visit_altair_plot sample_rt sample_translator sample_fs (sample_plot 0 None))),
        snd (snd (html_visit_altair_plot sample_rt sample_translator sample_fs (sample_plot 0 None))))
   \<and> json_loads sample_rt (json_dumps sample_rt (embed_payload (sample_plot 0 None)))
       = Inr (embed_payload (sample_plot 0 None))
   \<and> CHR ''/'' \<notin> set (div_id (sample_plot 0 None))
   \<and> \<not> startswith_sep (relpath (sample_plot 0 None))
   \<and> (\<exists>content.
         files (snd (snd (html_visit_altair_plot sample_rt sample_translator sample_fs
                            (sample_plot 0 None))))
           = (files sample_fs)(''/docs/build/html/gallery/index-rst-altair-plot-0.vl.json''
                                 \<mapsto> content)
       \<and> basename ''/docs/build/html/gallery/index-rst-altair-plot-0.vl.json''
           = ''index-rst-altair-plot-0.vl.json''
       \<and> prefix ''/docs/build/html'' ''/docs/build/html/gallery/index-rst-altair-plot-0.vl.json''
       \<and> json_loads sample_rt content
           = Inr (JDict [(''mode'', JStr ''vega-lite''), (''spec'', bar_spec)]))\<close>
proof -
  have h: "html_visit_altair_plot sample_rt sample_translator sample_fs (sample_plot 0 None)
     = (SkipNode,
        fst (snd (html_visit_altair_plot sample_rt sample_translator sample_fs (sample_plot 0 None))),
        snd (snd (html_visit_altair_plot sample_rt sample_translator sample_fs (sample_plot 0 None))))"
    using sample_html_visit by (simp add: prod_eq_iff)
  have l: "json_loads sample_rt (json_dumps sample_rt (embed_payload (sample_plot 0 None)))
       = Inr (embed_payload (sample_plot 0 None))"
    by (simp add: sample_rt_def sample_loads_def embed_payload_def sample_plot_def bar_spec_def)
  have n: "CHR ''/'' \<notin> set (div_id (sample_plot 0 None))"
    by (simp add: sample_plot_def str_nat.simps digit_char_def)
  have r: "\<not> startswith_sep (relpath (sample_plot 0 None))"
    by (simp add: sample_plot_def startswith_sep_def)
  have d: "path_join (path_join (builder_outdir sample_translator) (relpath (sample_plot 0 None)))
             (div_id (sample_plot 0 None) @ ''.vl.json'')
           = ''/docs/build/html/gallery/index-rst-altair-plot-0.vl.json''"
    by (simp add: sample_translator_def sample_plot_def path_join_def startswith_sep_def
        str_nat.simps digit_char_def)
  have o: "builder_outdir sample_translator = ''/docs/build/html''"
    by (simp add: sample_translator_def)
  have i: "div_id (sample_plot 0 None) @ ''.vl.json'' = ''index-rst-altair-plot-0.vl.json''"
    by (simp add: sample_plot_def str_nat.simps digit_char_def)
  have s: "spec (sample_plot 0 None) = bar_spec"
    by (simp add: sample_plot_def)
  from html_artifact [OF h l n r, unfolded d, unfolded o i s] have
    "\<exists>content.
         files (snd (snd (html_visit_altair_plot sample_rt sample_translator sample_fs
                            (sample_plot 0 None))))
           = (files sample_fs)(''/docs/build/html/gallery/index-rst-altair-plot-0.vl.json''
                                 \<mapsto> content)
       \<and> basename ''/docs/build/html/gallery/index-rst-altair-plot-0.vl.json''
           = ''index-rst-altair-plot-0.vl.json''
       \<and> prefix ''/docs/build/html'' ''/docs/build/html/gallery/index-rst-altair-plot-0.vl.json''
       \<and> json_loads sample_rt content
           = Inr (JDict [(''mode'', JStr ''vega-lite''), (''spec'', bar_spec)])"
    by blast
  with h l n r show ?thesis by blast
qed

text \<open>
  C7: of two invocations of one build that both return their nodes, the later one
  allocates the greater serial number, and no identifier of the nodes of one (target
  or div) is an identifier of the nodes of the other.
\<close>

theorem serials_increase_ids_unique:
  assumes "i < j" and "j < length ds"
      and "fst (run_all rt ds env) ! i = Inr ns_i"
      and "fst (run_all rt ds env) ! j = Inr ns_j"
  shows "serialnos (env_at rt ds env i) ''altair-plot''
           < serialnos (env_at rt ds env j) ''altair-plot''
         \<and> node_ids ns_i \<inter> node_ids ns_j = {}"
proof -
  let ?s = "\<lambda>k. serialnos (env_at rt ds env k) ''altair-plot''"
  from assms have i: "i < length ds" by simp
  from assms(3) run_all_nth [OF i, of rt env]
  have ri: "run rt (ds ! i) (env_at rt ds env i) = (Inr ns_i, env_at rt ds env (Suc i))"
    by (simp add: env_at_Suc [OF i] prod_eq_iff)
  from assms(4) run_all_nth [OF assms(2), of rt env]
  have rj: "run rt (ds ! j) (env_at rt ds env j)
            = (Inr ns_j, snd (run rt (ds ! j) (env_at rt ds env j)))"
    by (simp add: prod_eq_iff)
  from run_node_ids [OF ri] obtain b1 where
    ids_i: "node_ids ns_i = {b1 @ ''-altair-source-'' @ str_nat (?s i),
                             b1 @ ''-altair-plot-'' @ str_nat (?s i)}"
    and suc: "?s (Suc i) = Suc (?s i)" by blast
  from run_node_ids [OF rj] obtain b2 where
    ids_j: "node_ids ns_j = {b2 @ ''-altair-source-'' @ str_nat (?s j),
                             b2 @ ''-altair-plot-'' @ str_nat (?s j)}" by blast
  from assms(1,2) have "?s (Suc i) \<le> ?s j"
    by (intro env_at_mono) simp_all
  with suc have lt: "?s i < ?s j" by simp
  have neq: "b1 @ s1 @ CHR ''-'' # str_nat (?s i) \<noteq> b2 @ s2 @ CHR ''-'' # str_nat (?s j)"
    for s1 s2
    using id_serial [of b1 s1 "?s i" b2 s2 "?s j"] lt by auto
  have "node_ids ns_i \<inter> node_ids ns_j = {}"
    unfolding ids_i ids_j
    using neq [of "''-altair-source''" "''-altair-source''"]
          neq [of "''-altair-source''" "''-altair-plot''"]
          neq [of "''-altair-plot''" "''-altair-source''"]
          neq [of "''-altair-plot''" "''-altair-plot''"]
    by simp
  with lt show ?thesis by simp
qed

text \<open>
  The first and the third invocation of the sample build; the second one raised after
  it had allocated serial number 1.
\<close>

theorem serials_increase_ids_unique_witness:
  "(0::nat) < 2 \<and> 2 < length sample_build
   \<and> fst (run_all sample_rt sample_build sample_env) ! 0
       = Inr [Target [''index-rst-altair-source-0''], Literal_block sample_listing,
              Altair_plot (sample_plot 0 None)]
   \<and> fst (run_all sample_rt sample_build sample_env) ! 2
       = Inr [Target [''index-rst-altair-source-2''], Altair_plot (sample_plot 2 None),
              Literal_block sample_listing]
   \<and> serialnos (env_at sample_rt sample_build sample_env 0) ''altair-plot''
       < serialnos (env_at sample_rt sample_build sample_env 2) ''altair-plot''
   \<and> node_ids [Target [''index-rst-altair-source-0''], Literal_block sample_listing,
                Altair_plot (sample_plot 0 None)]
       \<inter> node_ids [Target [''index-rst-altair-source-2''], Altair_plot (sample_plot 2 None),
                    Literal_block sample_listing] = {}"
proof -
  have l: "(0::nat) < 2" "2 < length sample_build" by (simp_all add: sample_build_def)
  have r0: "fst (run_all sample_rt sample_build sample_env) ! 0
       = Inr [Target [''index-rst-altair-source-0''], Literal_block sample_listing,
              Altair_plot (sample_plot 0 None)]"
    and r2: "fst (run_all sample_rt sample_build sample_env) ! 2
       = Inr [Target [''index-rst-altair-source-2''], Altair_plot (sample_plot 2 None),
              Literal_block sample_listing]"
    by (simp_all add: sample_build_results)
  from serials_increase_ids_unique [OF l r0 r2] l r0 r2 show ?thesis by simp
qed



text \<open>
  C9: in every sequence that \<^verbatim>\<open>run\<close> returns, the target identifier is the basename
  of the document's source path with each \<^verbatim>\<open>.\<close> replaced by \<^verbatim>\<open>-\<close>, then
  \<^verbatim>\<open>-altair-source-\<close>, then the serial number just allocated in decimal; the div
  identifier is the same with \<^verbatim>\<open>-altair-plot-\<close>; the environment returned is the one
  the allocation left.
\<close>

theorem identifiers_format:
  assumes "run rt self env = (Inr ns, env')"
  shows "\<exists>p. Target [target_id p] \<in> set ns \<and> Altair_plot p \<in> set ns
           \<and> target_id p = str_replace CHR ''.'' CHR ''-'' (basename (document_source self))
                            @ ''-altair-source-'' @ str_nat (fst (new_serialno env ''altair-plot''))
           \<and> div_id p = str_replace CHR ''.'' CHR ''-'' (basename (document_source self))
                         @ ''-altair-plot-'' @ str_nat (fst (new_serialno env ''altair-plot''))
           \<and> env' = snd (new_serialno env ''altair-plot'')"
  using run_Inr [OF assms] unfolding Let_def by (auto split: if_splits)

text \<open>
  The sample directive, on \<^verbatim>\<open>/docs/source/gallery/index.rst\<close> with no serial number
  allocated yet.
\<close>

theorem identifiers_format_witness:
  "run sample_rt (sample_directive Map.empty sample_lines) sample_env
     = (Inr [Target [''index-rst-altair-source-0''], Literal_block sample_listing,
             Altair_plot (sample_plot 0 None)],
        snd (run sample_rt (sample_directive Map.empty sample_lines) sample_env))
   \<and> target_id (sample_plot 0 None) = ''index-rst-altair-source-0''
   \<and> div_id (sample_plot 0 None) = ''index-rst-altair-plot-0''"
proof -
  have h: "run sample_rt (sample_directive Map.empty sample_lines) sample_env
     = (Inr [Target [''index-rst-altair-source-0''], Literal_block sample_listing,
             Altair_plot (sample_plot 0 None)],
        snd (run sample_rt (sample_directive Map.empty sample_lines) sample_env))"
    by (rule collapse_run) (rule sample_run_plain)
  from identifiers_format [OF h] h show ?thesis
    by (auto simp: sample_directive_def sample_env_def new_serialno_def basename_def
        str_replace_def str_nat.simps digit_char_def)
qed

text \<open>
  C10: when the block parses to no statement at all, \<^verbatim>\<open>block.body.pop()\<close> raises
  IndexError; \<^verbatim>\<open>exec_then_eval\<close> returns no value, and \<^verbatim>\<open>run\<close> raises the same
  error, returns no node and leaves the environment as it was.
\<close>

theorem empty_block_fails:
  assumes "ast_parse rt (str_join ''\<newline>'' (content self)) = Inr []"
  shows "exec_then_eval rt (str_join ''\<newline>'' (content self)) = Inl IndexError
         \<and> run rt self env = (Inl IndexError, env)"
  using assms by (simp add: run_def exec_then_eval_def list_pop_def)

text \<open>The sample directive with no content line.\<close>

theorem empty_block_fails_witness:
  "ast_parse sample_rt (str_join ''\<newline>'' (content (sample_directive Map.empty []))) = Inr []
   \<and> exec_then_eval sample_rt (str_join ''\<newline>'' (content (sample_directive Map.empty [])))
       = Inl IndexError
   \<and> run sample_rt (sample_directive Map.empty []) sample_env = (Inl IndexError, sample_env)"
proof -
  have h: "ast_parse sample_rt (str_join ''\<newline>'' (content (sample_directive Map.empty []))) = Inr []"
    by (simp add: sample_rt_def sample_parse_def sample_directive_def)
  from empty_block_fails [OF h] h show ?thesis by simp
qed

end
